theory Spec2Isabelle
  imports Main
begin

section \<open>JavaScript numbers as used for message ids\<close>

text \<open>
  \<^verbatim>\<open>src/client/index.ts\<close> reads a message id with \<^verbatim>\<open>parseInt(s, 16)\<close>, adds 1 and
  writes it back with \<^verbatim>\<open>Number(n).toString(16)\<close>. The values are IEEE doubles that hold
  integers, NaN or an infinity. A double holding an integer is a sign and a magnitude
  with at most 53 significant bits; \<open>toDouble\<close> rounds a natural number to the nearest
  such magnitude (ties to the even significand), and gives \<open>None\<close> where the double
  is infinite.
\<close>

datatype jsnum = NaN | Infinity bool | Num bool nat
  \<comment> \<open>the flag is the sign: \<open>True\<close> for negative\<close>

fun bits :: "nat \<Rightarrow> nat" where
  "bits n = (if n = 0 then 0 else Suc (bits (n div 2)))"

declare bits.simps [simp del]

definition toDouble :: "nat \<Rightarrow> nat option" where
  "toDouble n =
     (let e = bits n - 53;
          q = n div 2 ^ e;
          r = n mod 2 ^ e;
          q' = (if 2 ^ e < 2 * r \<or> (2 * r = 2 ^ e \<and> odd q) then q + 1 else q)
      in if 2 ^ 1024 \<le> q' * 2 ^ e then None else Some (q' * 2 ^ e))"

definition hexDigit :: "char \<Rightarrow> nat option" where
  "hexDigit c =
     (let n = (of_char c :: nat)
      in if 48 \<le> n \<and> n \<le> 57 then Some (n - 48)
         else if 97 \<le> n \<and> n \<le> 102 then Some (n - 87)
         else if 65 \<le> n \<and> n \<le> 70 then Some (n - 55)
         else None)"

fun hexDigits :: "string \<Rightarrow> nat list" where
  "hexDigits [] = []"
| "hexDigits (c # cs) = (case hexDigit c of None \<Rightarrow> [] | Some d \<Rightarrow> d # hexDigits cs)"

definition hexValue :: "nat list \<Rightarrow> nat" where
  "hexValue ds = foldl (\<lambda>a d. 16 * a + d) 0 ds"

definition isWhiteSpace :: "char \<Rightarrow> bool" where
  "isWhiteSpace c = ((of_char c :: nat) \<in> {9, 10, 11, 12, 13, 32})"

definition stripSign :: "string \<Rightarrow> bool \<times> string" where
  "stripSign s =
     (case s of
        [] \<Rightarrow> (False, [])
      | c # cs \<Rightarrow> if c = CHR ''-'' then (True, cs)
                 else if c = CHR ''+'' then (False, cs) else (False, s))"

definition stripPrefix :: "string \<Rightarrow> string" where
  "stripPrefix s =
     (case s of
        c # d # cs \<Rightarrow> if c = CHR ''0'' \<and> (d = CHR ''x'' \<or> d = CHR ''X'') then cs else s
      | _ \<Rightarrow> s)"

text \<open>
  \<^verbatim>\<open>parseInt(s, 16)\<close> (ECMAScript 2023, 19.2.5): leading white space is dropped (the
  ASCII white space; strings are byte strings here), then a sign, then \<^verbatim>\<open>0x\<close>; the
  longest prefix of hexadecimal digits is the value; no digit at all is NaN.
\<close>

definition parseInt16 :: "string \<Rightarrow> jsnum" where
  "parseInt16 s =
     (let (neg, s1) = stripSign (dropWhile isWhiteSpace s);
          ds = hexDigits (stripPrefix s1)
      in if ds = [] then NaN
         else (case toDouble (hexValue ds) of
                 None \<Rightarrow> Infinity neg
               | Some v \<Rightarrow> Num neg v))"

text \<open>\<^verbatim>\<open>x + 1\<close> on such a double; the sum is rounded to a double again.\<close>

definition plusOne :: "jsnum \<Rightarrow> jsnum" where
  "plusOne x =
     (case x of
        NaN \<Rightarrow> NaN
      | Infinity neg \<Rightarrow> Infinity neg
      | Num neg m \<Rightarrow>
          if neg then
            (if m = 0 then Num False 1
             else if m = 1 then Num False 0
             else (case toDouble (m - 1) of
                     None \<Rightarrow> Infinity True
                   | Some v \<Rightarrow> Num True v))
          else (case toDouble (m + 1) of
                  None \<Rightarrow> Infinity False
                | Some v \<Rightarrow> Num False v))"

text \<open>\<^verbatim>\<open>a === b\<close> on numbers: NaN equals nothing, the two zeros are equal.\<close>

definition strictEq :: "jsnum \<Rightarrow> jsnum \<Rightarrow> bool" where
  "strictEq a b =
     (case (a, b) of
        (Num s m, Num t n) \<Rightarrow> m = n \<and> (s = t \<or> m = 0)
      | (Infinity s, Infinity t) \<Rightarrow> s = t
      | _ \<Rightarrow> False)"

definition hexChar :: "nat \<Rightarrow> char" where
  "hexChar d = ''0123456789abcdef'' ! d"

fun hexStr :: "nat \<Rightarrow> string" where
  "hexStr n = (if n < 16 then [hexChar n] else hexStr (n div 16) @ [hexChar (n mod 16)])"

declare hexStr.simps [simp del]

text \<open>\<^verbatim>\<open>Number(x).toString(16)\<close>.\<close>

definition toString16 :: "jsnum \<Rightarrow> string" where
  "toString16 x =
     (case x of
        NaN \<Rightarrow> ''NaN''
      | Infinity neg \<Rightarrow> (if neg then ''-Infinity'' else ''Infinity'')
      | Num neg m \<Rightarrow> (if neg \<and> 0 < m then ''-'' else '''') @ hexStr m)"



section \<open>Data model\<close>

text \<open>
  Keys are carried as JSON Web Keys. A compact JWS string is modelled by its three
  decoded parts; the serialisation itself (base64url of JSON, joined by dots) is not
  modelled, so every value of type \<open>jws\<close> stands for a well-formed compact string.
  The header always has \<^verbatim>\<open>alg: "ES384"\<close>, so only the optional \<^verbatim>\<open>jwk\<close> is kept.
  The three payload shapes are those of \<^verbatim>\<open>Invitation\<close>, \<^verbatim>\<open>ReplyMessage\<close> and
  \<^verbatim>\<open>SelfEncrypted\<close>.
\<close>

type_synonym jwk = string
type_synonym bytes = "char list"

record keypair =
  publicKey :: jwk
  privateKey :: jwk

datatype payload =
    InvitationPayload string jwk "string option" "string option"
      \<comment> \<open>messageId, epk, note, nickname\<close>
  | ReplyPayload string string string string "jwk option"
      \<comment> \<open>re, messageId, message, iv, epk\<close>
  | SelfEncryptedPayload string string jwk
      \<comment> \<open>message, iv, epk\<close>

datatype jws = JWS (header_jwk: "jwk option") (jws_payload: payload) (jws_signature: string)

record threadInfo =
  myThumbprint :: string
  theirEPK :: jwk
  signedInvite :: jws
  theirSignature :: jwk

datatype error =
    JWSVerificationFailed
  | MalformedEnvelope
  | TypeError
  | SyntaxError
  | CryptoError
  | ErrorEncryptingMessage
  | InvalidInvitationSignature
  | ThreadKeyNotFound
  | ThreadNotFound
  | PublicKeyNotFound
  | InvalidMessageId
  | DecryptedMessageMismatch
  | FirstMessageMustHaveEpk
  | InvitationNotFound
  | ExpectedReplyOneMore
  | UnableToDeterminePublicKey
  | ExpectedSignedWith
  | ErrorAppendingThread

section \<open>The platform: Web Crypto, Buffer, TextEncoder, JSON\<close>

text \<open>
  The primitives of the host platform are parameters of the model: ECDSA signing and
  verification over the signing input (header and payload), ECDH derivation of the
  AES-GCM key, AES-GCM itself, key import, the RFC 7638 thumbprint, the base64
  codecs of \<^verbatim>\<open>Buffer\<close>, the UTF-8 codec and JSON of an exported key pair.
\<close>

record env =
  ecdsaSign :: "jwk \<Rightarrow> jwk option \<times> payload \<Rightarrow> string"
  ecdsaVerify :: "jwk \<Rightarrow> jwk option \<times> payload \<Rightarrow> string \<Rightarrow> bool"
  importKey :: "jwk \<Rightarrow> bool"
  deriveSharedSecret :: "jwk \<Rightarrow> jwk \<Rightarrow> string"
  aesEncrypt :: "string \<Rightarrow> bytes \<Rightarrow> bytes \<Rightarrow> bytes"
  aesDecrypt :: "string \<Rightarrow> bytes \<Rightarrow> bytes \<Rightarrow> bytes option"
  getJWKthumbprint :: "jwk \<Rightarrow> string"
  toBase64 :: "bytes \<Rightarrow> string"
  toBase64url :: "bytes \<Rightarrow> string"
  fromBase64url :: "string \<Rightarrow> bytes"
  textEncode :: "string \<Rightarrow> bytes"
  textDecode :: "bytes \<Rightarrow> string"
  jsonStringify :: "keypair \<Rightarrow> string"
  jsonParse :: "string \<Rightarrow> keypair option"

section \<open>Storage adapter\<close>

text \<open>
  Keys are the colon-delimited strings of the source, \<^verbatim>\<open>`thread-info:${t}`\<close> and so
  on. No namespace prefix is a prefix of another one, so a key is its namespace and
  the rest.
\<close>

datatype skey =
    IdentityK string
  | InvitationK string
  | PublicKeyK string
  | ThreadInfoK string
  | EncryptedThreadKeyK string
  | ThreadsK string
  | MessagesK string
  | MessageIdK string

datatype sval =
    VString string
  | VJws jws
  | VKey jwk
  | VInfo threadInfo
  | VList "sval list"

type_synonym storage = "skey \<Rightarrow> sval option"

text \<open>Modelled from the spec: the class \<^verbatim>\<open>GridStorage\<close> (\<^verbatim>\<open>./GridStorage\<close>) is not
  among the sources; section 6 gives \<^verbatim>\<open>get\<close>, \<^verbatim>\<open>set\<close>, \<^verbatim>\<open>has\<close> and an
  \<^verbatim>\<open>append\<close> to a list that preserves insertion order.\<close>

definition getItem :: "storage \<Rightarrow> skey \<Rightarrow> sval option" where
  "getItem s k = s k"

definition setItem :: "storage \<Rightarrow> skey \<Rightarrow> sval \<Rightarrow> storage" where
  "setItem s k v = s(k \<mapsto> v)"

definition hasItem :: "storage \<Rightarrow> skey \<Rightarrow> bool" where
  "hasItem s k = (s k \<noteq> None)"

definition appendItem :: "storage \<Rightarrow> skey \<Rightarrow> sval \<Rightarrow> storage" where
  "appendItem s k v =
     s(k \<mapsto> VList ((case s k of Some (VList xs) \<Rightarrow> xs | _ \<Rightarrow> []) @ [v]))"

text \<open>JavaScript truthiness of what \<^verbatim>\<open>getItem\<close> returned (\<^verbatim>\<open>invariant(x, ...)\<close>
  throws on a falsy \<^verbatim>\<open>x\<close>) and of an optional string.\<close>

definition truthy :: "sval option \<Rightarrow> bool" where
  "truthy x = (case x of None \<Rightarrow> False | Some (VString t) \<Rightarrow> t \<noteq> [] | Some _ \<Rightarrow> True)"

definition truthyStr :: "string option \<Rightarrow> bool" where
  "truthyStr x = (case x of None \<Rightarrow> False | Some t \<Rightarrow> t \<noteq> [])"

text \<open>A promise is an object, hence truthy whatever it resolves to.\<close>

definition promiseTruthy :: "bool \<Rightarrow> bool" where
  "promiseTruthy resolved = True"

section \<open>JWS envelope\<close>

text \<open>Modelled from the spec: \<^verbatim>\<open>signJWS\<close>, \<^verbatim>\<open>verifyJWS\<close> and \<^verbatim>\<open>parseJWS\<close> of
  \<^verbatim>\<open>./utils\<close> are not among the sources. Section 4.2: \<^verbatim>\<open>verify\<close> with no key uses the
  embedded \<^verbatim>\<open>jwk\<close> if present, else fails; \<^verbatim>\<open>parse\<close> verifies first if a key is
  supplied, verifies against the embedded key if none is supplied and the header
  embeds one, and otherwise returns the parts unverified. The source also passes
  \<^verbatim>\<open>null\<close> as the key, where section 4.5.4 says "Parse (unverified)".\<close>

datatype pubArg = Absent | Null | Key jwk

definition signJWS :: "env \<Rightarrow> jwk option \<Rightarrow> payload \<Rightarrow> jwk \<Rightarrow> jws" where
  "signJWS E h p priv = JWS h p (ecdsaSign E priv (h, p))"

definition verifyJWS :: "env \<Rightarrow> jws \<Rightarrow> jwk option \<Rightarrow> bool" where
  "verifyJWS E j pub =
     (case pub of
        Some k \<Rightarrow> ecdsaVerify E k (header_jwk j, jws_payload j) (jws_signature j)
      | None \<Rightarrow>
          (case header_jwk j of
             Some k \<Rightarrow> ecdsaVerify E k (header_jwk j, jws_payload j) (jws_signature j)
           | None \<Rightarrow> False))"

definition parseJWS :: "env \<Rightarrow> jws \<Rightarrow> pubArg \<Rightarrow> error + jws" where
  "parseJWS E j arg =
     (case arg of
        Null \<Rightarrow> Inr j
      | Key k \<Rightarrow> if verifyJWS E j (Some k) then Inr j else Inl JWSVerificationFailed
      | Absent \<Rightarrow>
          (case header_jwk j of
             Some k \<Rightarrow> if verifyJWS E j None then Inr j else Inl JWSVerificationFailed
           | None \<Rightarrow> Inr j))"


section \<open>The client\<close>

record client =
  thumbprint :: string
  identityKeyPair :: keypair
  storageKeyPair :: keypair

text \<open>Fresh key pairs and initialisation vectors are inputs: \<open>selfEntropy\<close> is what
  one \<^verbatim>\<open>encryptToSelf\<close> draws, \<open>entropy\<close> what one \<^verbatim>\<open>makeThreadKeys\<close> draws.\<close>

record selfEntropy =
  selfEpk :: keypair
  selfIv :: bytes

record entropy =
  threadKey :: keypair
  backupEntropy :: selfEntropy

definition decryptFromSelf :: "env \<Rightarrow> client \<Rightarrow> jws \<Rightarrow> error + string" where
  "decryptFromSelf E cl message =
     (case parseJWS E message (Key (publicKey (identityKeyPair cl))) of
        Inl e \<Rightarrow> Inl e
      | Inr selfEncrypted \<Rightarrow>
          (case jws_payload selfEncrypted of
             SelfEncryptedPayload msg iv epk \<Rightarrow>
               if \<not> importKey E epk then Inl CryptoError
               else
                 (case aesDecrypt E
                         (deriveSharedSecret E (privateKey (storageKeyPair cl)) epk)
                         (fromBase64url E iv) (fromBase64url E msg) of
                    None \<Rightarrow> Inl CryptoError
                  | Some decryptedBuffer \<Rightarrow> Inr (textDecode E decryptedBuffer))
           | _ \<Rightarrow> Inl MalformedEnvelope))"

definition encryptToSelf :: "env \<Rightarrow> client \<Rightarrow> selfEntropy \<Rightarrow> string \<Rightarrow> error + jws" where
  "encryptToSelf E cl rnd message =
     (let epk = selfEpk rnd;
          secret = deriveSharedSecret E (privateKey epk) (publicKey (storageKeyPair cl));
          iv = selfIv rnd;
          encrypted = aesEncrypt E secret iv (textEncode E message);
          encryptedJWS =
            signJWS E (Some (publicKey (identityKeyPair cl)))
              (SelfEncryptedPayload (toBase64url E encrypted) (toBase64 E iv) (publicKey epk))
              (privateKey (identityKeyPair cl))
      in if \<not> verifyJWS E encryptedJWS None then Inl ErrorEncryptingMessage
         else
           (case decryptFromSelf E cl encryptedJWS of
              Inl e \<Rightarrow> Inl ErrorEncryptingMessage
            | Inr decryptedMessage \<Rightarrow>
                if decryptedMessage = message then Inr encryptedJWS
                else Inl ErrorEncryptingMessage))"

definition makeThreadKeys ::
  "env \<Rightarrow> client \<Rightarrow> storage \<Rightarrow> entropy \<Rightarrow> (error + string \<times> keypair) \<times> storage" where
  "makeThreadKeys E cl s rnd =
     (let jwks = threadKey rnd;
          thumbprint' = getJWKthumbprint E (publicKey jwks)
      in case encryptToSelf E cl (backupEntropy rnd) (jsonStringify E jwks) of
           Inl e \<Rightarrow> (Inl e, s)
         | Inr keyBackup \<Rightarrow>
             (Inr (thumbprint', jwks),
              setItem s (EncryptedThreadKeyK thumbprint') (VJws keyBackup)))"

definition startThread ::
  "env \<Rightarrow> client \<Rightarrow> storage \<Rightarrow> jws \<Rightarrow> jwk \<Rightarrow> jwk \<Rightarrow> string \<Rightarrow> string option \<Rightarrow> entropy
     \<Rightarrow> (error + string) \<times> storage" where
  "startThread E cl s signedInvite' theirEPKJWK theirSignature' messageId myThumbprint' rnd =
     (case (if \<not> truthyStr myThumbprint'
            then (case makeThreadKeys E cl s rnd of
                    (Inl e, s1) \<Rightarrow> (Inl e, s1)
                  | (Inr (thumbprint', jwks), s1) \<Rightarrow> (Inr thumbprint', s1))
            else (Inr (the myThumbprint'), s)) of
        (Inl e, s1) \<Rightarrow> (Inl e, s1)
      | (Inr myThumbprint'', s1) \<Rightarrow>
          if \<not> truthy (getItem s1 (EncryptedThreadKeyK myThumbprint''))
          then (Inl ThreadKeyNotFound, s1)
          else
            (let signatureThumbprint = getJWKthumbprint E theirSignature';
                 s2 = setItem s1 (PublicKeyK signatureThumbprint) (VKey theirSignature');
                 s3 = setItem s2 (ThreadInfoK myThumbprint'')
                        (VInfo \<lparr>myThumbprint = myThumbprint'', theirEPK = theirEPKJWK,
                                signedInvite = signedInvite',
                                theirSignature = theirSignature'\<rparr>);
                 s4 = appendItem s3 (ThreadsK (thumbprint cl)) (VString myThumbprint'');
                 s5 = appendItem s4 (MessagesK myThumbprint'') (VJws signedInvite');
                 s6 = setItem s5 (MessageIdK myThumbprint'') (VString messageId)
             in (Inr myThumbprint'', s6)))"

definition readThreadSecret ::
  "env \<Rightarrow> client \<Rightarrow> storage \<Rightarrow> string \<Rightarrow> error + string \<times> jwk" where
  "readThreadSecret E cl s threadThumbprint =
     (case getItem s (ThreadInfoK threadThumbprint) of
        Some (VInfo threadInfo) \<Rightarrow>
          if \<not> importKey E (theirEPK threadInfo) then Inl CryptoError
          else
            (case getItem s (EncryptedThreadKeyK (myThumbprint threadInfo)) of
               Some (VJws encryptedBackup) \<Rightarrow>
                 (case decryptFromSelf E cl encryptedBackup of
                    Inl e \<Rightarrow> Inl e
                  | Inr text \<Rightarrow>
                      (case jsonParse E text of
                         None \<Rightarrow> Inl SyntaxError
                       | Some jwks \<Rightarrow>
                           if \<not> importKey E (privateKey jwks) then Inl CryptoError
                           else Inr (deriveSharedSecret E (privateKey jwks)
                                       (theirEPK threadInfo),
                                     publicKey jwks)))
             | Some (VString t) \<Rightarrow> Inl MalformedEnvelope
             | _ \<Rightarrow> Inl ThreadKeyNotFound)
      | x \<Rightarrow> if truthy x then Inl PublicKeyNotFound else Inl ThreadNotFound)"


text \<open>\<^verbatim>\<open>createInvitation\<close>; \<open>r\<close> is the integer \<^verbatim>\<open>Math.floor(Math.random() * MAX_MESSAGE_ID)\<close>.\<close>

definition createInvitation ::
  "env \<Rightarrow> client \<Rightarrow> storage \<Rightarrow> string option \<Rightarrow> string option \<Rightarrow> entropy \<Rightarrow> nat
     \<Rightarrow> (error + jws) \<times> storage" where
  "createInvitation E cl s note nickname rnd r =
     (case makeThreadKeys E cl s rnd of
        (Inl e, s1) \<Rightarrow> (Inl e, s1)
      | (Inr (thumbprint', jwks), s1) \<Rightarrow>
          (let signedInvitation =
                 signJWS E (Some (publicKey (identityKeyPair cl)))
                   (InvitationPayload (toString16 (Num False r)) (publicKey jwks) note nickname)
                   (privateKey (identityKeyPair cl))
           in (Inr signedInvitation,
               setItem s1 (InvitationK thumbprint') (VJws signedInvitation))))"

text \<open>
  \<^verbatim>\<open>appendThread\<close>, lines 480 to 505: the choice of the key when the message does not
  verify under an embedded key. The two tests on \<^verbatim>\<open>payload.re\<close> are two \<^verbatim>\<open>if\<close>
  statements in sequence; the second one overwrites what the first one chose.
\<close>

definition selectPubKey ::
  "env \<Rightarrow> client \<Rightarrow> threadInfo \<Rightarrow> jws \<Rightarrow> string \<Rightarrow> error + jwk option" where
  "selectPubKey E cl threadInfo jws re =
     (if header_jwk jws = None \<and> re \<noteq> [] then
        (case (if re = myThumbprint threadInfo
               then (if importKey E (theirSignature threadInfo)
                     then Inr (Some (theirSignature threadInfo))
                     else Inl CryptoError)
               else Inr None) of
           Inl e \<Rightarrow> Inl e
         | Inr pubKey \<Rightarrow>
             if re = getJWKthumbprint E (theirEPK threadInfo)
             then Inr (Some (publicKey (identityKeyPair cl)))
             else Inr pubKey)
      else Inr None)"

definition verifySigner ::
  "env \<Rightarrow> client \<Rightarrow> threadInfo \<Rightarrow> jws \<Rightarrow> string \<Rightarrow> error + unit" where
  "verifySigner E cl threadInfo jws re =
     (if \<not> verifyJWS E jws None then
        (case selectPubKey E cl threadInfo jws re of
           Inl e \<Rightarrow> Inl e
         | Inr None \<Rightarrow> Inl UnableToDeterminePublicKey
         | Inr (Some pubKey) \<Rightarrow>
             if \<not> verifyJWS E jws (Some pubKey) then Inl ExpectedSignedWith else Inr ())
      else Inr ())"

text \<open>\<^verbatim>\<open>appendThread\<close> from line 476 on, where the thread thumbprint is known. A value
  of another shape under \<^verbatim>\<open>thread-info:\<close> is a type error.\<close>

definition appendThreadTail ::
  "env \<Rightarrow> client \<Rightarrow> storage \<Rightarrow> jws \<Rightarrow> string \<Rightarrow> (error + string \<times> string) \<times> storage" where
  "appendThreadTail E cl s encryptedMessage threadThumbprint =
     (let stored = getItem s (ThreadInfoK threadThumbprint)
      in case parseJWS E encryptedMessage Null of
           Inl e \<Rightarrow> (Inl e, s)
         | Inr jws \<Rightarrow>
             (case jws_payload jws of
                ReplyPayload re messageId message iv epk \<Rightarrow>
                  (case stored of
                     Some (VInfo threadInfo) \<Rightarrow>
                       (case verifySigner E cl threadInfo jws re of
                          Inl e \<Rightarrow> (Inl e, s)
                        | Inr u \<Rightarrow>
                            (case readThreadSecret E cl s threadThumbprint of
                               Inl e \<Rightarrow> (Inl e, s)
                             | Inr (secret, epk') \<Rightarrow>
                                 (case aesDecrypt E secret (fromBase64url E iv)
                                         (fromBase64url E message) of
                                    None \<Rightarrow> (Inl ErrorAppendingThread, s)
                                  | Some decryptedBuffer \<Rightarrow>
                                      (Inr (threadThumbprint, textDecode E decryptedBuffer),
                                       appendItem s (MessagesK threadThumbprint)
                                         (VJws encryptedMessage)))))
                   | x \<Rightarrow> (if truthy x then Inl TypeError else Inl ThreadNotFound, s))
              | _ \<Rightarrow> (Inl MalformedEnvelope, s)))"

text \<open>
  \<^verbatim>\<open>appendThread\<close>. Without a thread thumbprint and without an embedded key the
  function calls itself with \<^verbatim>\<open>payload.re\<close>; where that is the empty string (falsy
  again) and \<^verbatim>\<open>thread-info:\<close> exists, the call never returns, which is \<open>None\<close>.
\<close>

partial_function (option) appendThread ::
  "env \<Rightarrow> client \<Rightarrow> storage \<Rightarrow> jws \<Rightarrow> string option \<Rightarrow> entropy
     \<Rightarrow> ((error + string \<times> string) \<times> storage) option" where
  "appendThread E cl s encryptedMessage threadThumbprint rnd =
     (if \<not> truthyStr threadThumbprint then
        (case parseJWS E encryptedMessage Null of
           Inl e \<Rightarrow> Some (Inl e, s)
         | Inr jws \<Rightarrow>
             (case jws_payload jws of
                ReplyPayload re messageId message iv epk \<Rightarrow>
                  (case header_jwk jws of
                     None \<Rightarrow>
                       if \<not> hasItem s (ThreadInfoK re) then Some (Inl ThreadNotFound, s)
                       else appendThread E cl s encryptedMessage (Some re) rnd
                   | Some jwk' \<Rightarrow>
                       (case epk of
                          None \<Rightarrow> Some (Inl FirstMessageMustHaveEpk, s)
                        | Some epk' \<Rightarrow>
                            (let invitation = getItem s (InvitationK re)
                             in if \<not> truthy invitation then Some (Inl InvitationNotFound, s)
                                else
                                  (case invitation of
                                     Some (VJws invJws) \<Rightarrow>
                                       (case parseJWS E invJws Absent of
                                          Inl e \<Rightarrow> Some (Inl e, s)
                                        | Inr invitationJWS \<Rightarrow>
                                            (case jws_payload invitationJWS of
                                               InvitationPayload invId invEpk note nickname \<Rightarrow>
                                                 if \<not> strictEq (parseInt16 messageId)
                                                        (plusOne (parseInt16 invId))
                                                 then Some (Inl ExpectedReplyOneMore, s)
                                                 else
                                                   (case startThread E cl s invJws epk' jwk' messageId
                                                           (Some (getJWKthumbprint E invEpk)) rnd of
                                                      (Inl e, s1) \<Rightarrow> Some (Inl e, s1)
                                                    | (Inr t, s1) \<Rightarrow>
                                                        Some (appendThreadTail E cl s1
                                                                encryptedMessage t))
                                             | _ \<Rightarrow> Some (Inl MalformedEnvelope, s)))
                                   | _ \<Rightarrow> Some (Inl MalformedEnvelope, s)))))
              | _ \<Rightarrow> Some (Inl MalformedEnvelope, s)))
      else Some (appendThreadTail E cl s encryptedMessage (the threadThumbprint)))"

text \<open>
  \<^verbatim>\<open>replyToThread\<close>. At line 411 the promise returned by \<^verbatim>\<open>verifyJWS\<close> is passed to
  \<^verbatim>\<open>invariant\<close> without \<^verbatim>\<open>await\<close>.
\<close>

definition replyToThread ::
  "env \<Rightarrow> client \<Rightarrow> storage \<Rightarrow> string \<Rightarrow> string \<Rightarrow> bool \<Rightarrow> bytes \<Rightarrow> entropy
     \<Rightarrow> ((error + jws) \<times> storage) option" where
  "replyToThread E cl s threadThumbprint message selfSign iv rnd =
     (case readThreadSecret E cl s threadThumbprint of
        Inl e \<Rightarrow> Some (Inl e, s)
      | Inr (secret, epk) \<Rightarrow>
          (let encrypted = aesEncrypt E secret iv (textEncode E message)
           in case getItem s (MessageIdK threadThumbprint) of
                Some (VString messageId) \<Rightarrow>
                  (let nextId = plusOne (parseInt16 messageId);
                       s1 = setItem s (MessageIdK threadThumbprint)
                              (VString (toString16 nextId))
                   in case getItem s1 (ThreadInfoK threadThumbprint) of
                        Some (VInfo threadInfo) \<Rightarrow>
                          (let re = getJWKthumbprint E (theirEPK threadInfo);
                               replyMessage =
                                 (if selfSign then Some (publicKey (identityKeyPair cl)) else None,
                                  ReplyPayload re (toString16 nextId) (toBase64url E encrypted)
                                    (toBase64 E iv) (if selfSign then Some epk else None));
                               encryptedJWS =
                                 signJWS E (fst replyMessage) (snd replyMessage)
                                   (privateKey (identityKeyPair cl))
                           in if \<not> promiseTruthy
                                     (verifyJWS E encryptedJWS
                                        (Some (publicKey (identityKeyPair cl))))
                              then Some (Inl ErrorEncryptingMessage, s1)
                              else
                                (case aesDecrypt E secret iv
                                        (fromBase64url E (toBase64url E encrypted)) of
                                   None \<Rightarrow> Some (Inl CryptoError, s1)
                                 | Some decryptedBuffer \<Rightarrow>
                                     if textDecode E decryptedBuffer \<noteq> message
                                     then Some (Inl DecryptedMessageMismatch, s1)
                                     else
                                       (case appendThread E cl s1 encryptedJWS
                                               (Some threadThumbprint) rnd of
                                          None \<Rightarrow> None
                                        | Some (Inl e, s2) \<Rightarrow> Some (Inl e, s2)
                                        | Some (Inr r, s2) \<Rightarrow> Some (Inr encryptedJWS, s2))))
                      | x \<Rightarrow> Some (if truthy x then Inl TypeError else Inl ThreadNotFound, s1))
              | _ \<Rightarrow> Some (Inl InvalidMessageId, s)))"

definition replyToInvitation ::
  "env \<Rightarrow> client \<Rightarrow> storage \<Rightarrow> jws \<Rightarrow> string \<Rightarrow> entropy \<Rightarrow> bytes \<Rightarrow> entropy
     \<Rightarrow> ((error + jws) \<times> storage) option" where
  "replyToInvitation E cl s signedInvite' message rnd iv rnd' =
     (if \<not> verifyJWS E signedInvite' None then Some (Inl InvalidInvitationSignature, s)
      else
        (case parseJWS E signedInvite' Absent of
           Inl e \<Rightarrow> Some (Inl e, s)
         | Inr invite \<Rightarrow>
             (case (jws_payload invite, header_jwk invite) of
                (InvitationPayload messageId epk note nickname, Some jwk') \<Rightarrow>
                  (case startThread E cl s signedInvite' epk jwk' messageId None rnd of
                     (Inl e, s1) \<Rightarrow> Some (Inl e, s1)
                   | (Inr threadThumbprint, s1) \<Rightarrow>
                       replyToThread E cl s1 threadThumbprint message True iv rnd')
              | _ \<Rightarrow> Some (Inl MalformedEnvelope, s))))"


section \<open>Assumptions on the platform\<close>







section \<open>A small platform for the concrete runs\<close>

definition toyPair :: "string \<Rightarrow> keypair" where
  "toyPair k = \<lparr>publicKey = k, privateKey = CHR ''p'' # k\<rparr>"

definition toyDigest :: "jwk option \<times> payload \<Rightarrow> string" where
  "toyDigest hp =
     (case snd hp of
        InvitationPayload messageId epk note nickname \<Rightarrow> messageId
      | ReplyPayload re messageId message iv epk \<Rightarrow> messageId @ message
      | SelfEncryptedPayload message iv epk \<Rightarrow> message)"

definition toyParse :: "string \<Rightarrow> keypair option" where
  "toyParse t =
     (if CHR '','' \<in> set t
      then Some \<lparr>publicKey = takeWhile (\<lambda>c. c \<noteq> CHR '','') t,
                 privateKey = tl (dropWhile (\<lambda>c. c \<noteq> CHR '','') t)\<rparr>
      else None)"

definition toy :: env where
  "toy =
     \<lparr>ecdsaSign = (\<lambda>priv hp. tl priv @ toyDigest hp),
      ecdsaVerify = (\<lambda>pub hp sig. sig = pub @ toyDigest hp),
      importKey = (\<lambda>k. True),
      deriveSharedSecret = (\<lambda>priv pub. replicate (length (tl priv) + length pub) CHR ''s''),
      aesEncrypt = (\<lambda>k iv pt. k @ iv @ pt),
      aesDecrypt = (\<lambda>k iv ct. if take (length (k @ iv)) ct = k @ iv
                               then Some (drop (length (k @ iv)) ct) else None),
      getJWKthumbprint = (\<lambda>k. CHR ''t'' # k),
      toBase64 = (\<lambda>b. b),
      toBase64url = (\<lambda>b. b),
      fromBase64url = (\<lambda>t. t),
      textEncode = (\<lambda>t. t),
      textDecode = (\<lambda>b. b),
      jsonStringify = (\<lambda>kp. publicKey kp @ CHR '','' # privateKey kp),
      jsonParse = toyParse\<rparr>"


definition alice :: client where
  "alice = \<lparr>thumbprint = ''ta'', identityKeyPair = toyPair ''a'',
            storageKeyPair = toyPair ''as''\<rparr>"

definition bob :: client where
  "bob = \<lparr>thumbprint = ''tb'', identityKeyPair = toyPair ''b'',
          storageKeyPair = toyPair ''bs''\<rparr>"

definition rndA :: entropy where
  "rndA = \<lparr>threadKey = toyPair ''x'',
           backupEntropy = \<lparr>selfEpk = toyPair ''e'', selfIv = ''v''\<rparr>\<rparr>"

definition rndB :: entropy where
  "rndB = \<lparr>threadKey = toyPair ''y'',
           backupEntropy = \<lparr>selfEpk = toyPair ''f'', selfIv = ''w''\<rparr>\<rparr>"

declare appendThread.simps [code]


section \<open>A conversation on the small platform\<close>

text \<open>Alice invites with message id 1, Bob replies (\<open>reply1\<close>), Alice ingests the
  reply and answers (\<open>reply2\<close>), Bob ingests the answer and replies again
  (\<open>reply3\<close>). The stores are those the runs leave behind.\<close>

definition invite1 :: jws where
  "invite1 = JWS (Some ''a'') (InvitationPayload ''1'' ''x'' None None) ''a1''"

definition reply1 :: jws where
  "reply1 = JWS (Some ''b'') (ReplyPayload ''tx'' ''2'' ''sszhi'' ''z'' (Some ''y'')) ''b2sszhi''"

definition reply2 :: jws where
  "reply2 = JWS None (ReplyPayload ''ty'' ''3'' ''ssuhello'' ''u'' None) ''a3ssuhello''"

definition reply3 :: jws where
  "reply3 = JWS None (ReplyPayload ''tx'' ''3'' ''ssqagain'' ''q'' None) ''b3ssqagain''"

definition backupA :: jws where
  "backupA = JWS (Some ''a'') (SelfEncryptedPayload ''sssvx,px'' ''v'' ''e'') ''asssvx,px''"

definition backupB :: jws where
  "backupB = JWS (Some ''b'') (SelfEncryptedPayload ''ssswy,py'' ''w'' ''f'') ''bssswy,py''"

definition aliceStore0 :: storage where
  "aliceStore0 =
     [EncryptedThreadKeyK ''tx'' \<mapsto> VJws backupA, InvitationK ''tx'' \<mapsto> VJws invite1]"

definition aliceStore1 :: storage where
  "aliceStore1 =
     aliceStore0
       (PublicKeyK ''tb'' \<mapsto> VKey ''b'',
        ThreadInfoK ''tx'' \<mapsto> VInfo \<lparr>myThumbprint = ''tx'', theirEPK = ''y'',
                                     signedInvite = invite1, theirSignature = ''b''\<rparr>,
        ThreadsK ''ta'' \<mapsto> VList [VString ''tx''],
        MessagesK ''tx'' \<mapsto> VList [VJws invite1, VJws reply1],
        MessageIdK ''tx'' \<mapsto> VString ''2'')"

definition aliceStore2 :: storage where
  "aliceStore2 =
     aliceStore1
       (MessageIdK ''tx'' \<mapsto> VString ''3'',
        MessagesK ''tx'' \<mapsto> VList [VJws invite1, VJws reply1, VJws reply2])"

definition bobStore1 :: storage where
  "bobStore1 =
     [EncryptedThreadKeyK ''ty'' \<mapsto> VJws backupB,
      PublicKeyK ''ta'' \<mapsto> VKey ''a'',
      ThreadInfoK ''ty'' \<mapsto> VInfo \<lparr>myThumbprint = ''ty'', theirEPK = ''x'',
                                   signedInvite = invite1, theirSignature = ''a''\<rparr>,
      ThreadsK ''tb'' \<mapsto> VList [VString ''ty''],
      MessagesK ''ty'' \<mapsto> VList [VJws invite1, VJws reply1],
      MessageIdK ''ty'' \<mapsto> VString ''2'']"

definition bobStore2 :: storage where
  "bobStore2 = bobStore1 (MessagesK ''ty'' \<mapsto> VList [VJws invite1, VJws reply1, VJws reply2])"

definition bobStore3 :: storage where
  "bobStore3 =
     bobStore2
       (MessageIdK ''ty'' \<mapsto> VString ''3'',
        MessagesK ''ty'' \<mapsto> VList [VJws invite1, VJws reply1, VJws reply2, VJws reply3])"




text \<open>Bob's store with the message id of the thread at \<open>2 ^ 52 - 1\<close>, the largest
  integer below \<^verbatim>\<open>MAX_MESSAGE_ID\<close>, and what a reply makes of it.\<close>

definition bobStoreMax :: storage where
  "bobStoreMax = bobStore1 (MessageIdK ''ty'' \<mapsto> VString ''fffffffffffff'')"

definition replyMax :: jws where
  "replyMax = JWS None (ReplyPayload ''tx'' ''10000000000000'' ''ssqhi'' ''q'' None)
                ''b10000000000000ssqhi''"

definition bobStoreMax2 :: storage where
  "bobStoreMax2 =
     bobStoreMax
       (MessageIdK ''ty'' \<mapsto> VString ''10000000000000'',
        MessagesK ''ty'' \<mapsto> VList [VJws invite1, VJws reply1, VJws replyMax])"





text \<open>Bob's first reply with a signature that is not his.\<close>

definition forgedReply :: jws where
  "forgedReply = JWS (Some ''b'') (ReplyPayload ''tx'' ''2'' ''sszhi'' ''z'' (Some ''y'')) ''c2sszhi''"



definition replyNoEpk :: jws where
  "replyNoEpk = JWS (Some ''b'') (ReplyPayload ''tx'' ''2'' ''sszhi'' ''z'' None) ''b2sszhi''"

section \<open>Auxiliary facts\<close>

lemmas toy_defs = toy_def toyPair_def toyDigest_def toyParse_def alice_def bob_def
  rndA_def rndB_def

lemmas storage_defs = getItem_def setItem_def hasItem_def appendItem_def truthy_def
  truthyStr_def






lemma appendThread_known:
  "t \<noteq> [] \<Longrightarrow> appendThread E cl s m (Some t) rnd = Some (appendThreadTail E cl s m t)"
  by (subst appendThread.simps) (simp add: truthyStr_def)


lemma appendThreadTail_Inr:
  assumes "appendThreadTail E cl s m t = (Inr r, s')"
  shows "\<exists>re mid msg iv epk info.
           jws_payload m = ReplyPayload re mid msg iv epk \<and>
           s (ThreadInfoK t) = Some (VInfo info) \<and>
           verifySigner E cl info m re = Inr () \<and>
           s' = appendItem s (MessagesK t) (VJws m) \<and> fst r = t"
  using assms
  by (auto simp: appendThreadTail_def Let_def parseJWS_def getItem_def
      split: sum.splits payload.splits option.splits sval.splits if_splits prod.splits)

lemma verifySigner_identity:
  assumes "verifySigner E cl info m re = Inr ()"
    and "header_jwk m = Some (publicKey (identityKeyPair cl)) \<or>
         (header_jwk m = None \<and> re = getJWKthumbprint E (theirEPK info))"
  shows "verifyJWS E m (Some (publicKey (identityKeyPair cl)))"
  using assms
  by (auto simp: verifySigner_def selectPubKey_def verifyJWS_def
      split: sum.splits option.splits if_splits)

lemma replyToThread_total:
  "T \<noteq> [] \<Longrightarrow> \<exists>r s'. replyToThread E cl s T message selfSign iv rnd = Some (r, s')"
  by (simp add: replyToThread_def Let_def appendThread_known
      split: sum.splits prod.splits option.splits sval.splits)

lemma replyToThread_Inr:
  assumes "replyToThread E cl s T message selfSign iv rnd = Some (Inr j, s')" and "T \<noteq> []"
  shows "\<exists>secret epk mid info r.
           readThreadSecret E cl s T = Inr (secret, epk) \<and>
           s (MessageIdK T) = Some (VString mid) \<and>
           s (ThreadInfoK T) = Some (VInfo info) \<and>
           j = signJWS E (if selfSign then Some (publicKey (identityKeyPair cl)) else None)
                 (ReplyPayload (getJWKthumbprint E (theirEPK info))
                    (toString16 (plusOne (parseInt16 mid)))
                    (toBase64url E (aesEncrypt E secret iv (textEncode E message)))
                    (toBase64 E iv) (if selfSign then Some epk else None))
                 (privateKey (identityKeyPair cl)) \<and>
           appendThreadTail E cl
             (setItem s (MessageIdK T) (VString (toString16 (plusOne (parseInt16 mid))))) j T
             = (Inr r, s')"
  using assms
  by (auto simp: replyToThread_def Let_def appendThread_known getItem_def setItem_def
      split: sum.splits prod.splits option.splits sval.splits if_splits)

lemma bits_le: "n < 2 ^ k \<Longrightarrow> bits n \<le> k"
proof (induction n arbitrary: k rule: bits.induct)
  case (1 n)
  show ?case
  proof (cases "n = 0")
    case True then show ?thesis by (simp add: bits.simps)
  next
    case False
    with 1(2) obtain j where k: "k = Suc j" by (cases k) auto
    with 1(2) have "n div 2 < 2 ^ j" by auto
    with 1(1) [OF False] have "bits (n div 2) \<le> j" by blast
    with False k show ?thesis by (simp add: bits.simps)
  qed
qed

lemma toDouble_small: "n < 2 ^ 53 \<Longrightarrow> toDouble n = Some n"
proof -
  assume a: "n < 2 ^ 53"
  then have "bits n - 53 = 0" using bits_le [of n 53] by simp
  moreover have "n < 2 ^ 1024" using a by (rule less_trans) simp
  ultimately show ?thesis by (simp add: toDouble_def Let_def)
qed











lemmas model_defs = encryptToSelf_def decryptFromSelf_def makeThreadKeys_def startThread_def
  readThreadSecret_def createInvitation_def selectPubKey_def verifySigner_def appendThreadTail_def
  replyToThread_def replyToInvitation_def signJWS_def verifyJWS_def parseJWS_def
  promiseTruthy_def Let_def

lemmas num_defs = toString16_def plusOne_def parseInt16_def stripSign_def stripPrefix_def
  isWhiteSpace_def hexDigit_def hexValue_def hexStr.simps hexChar_def

lemmas scen_defs = invite1_def reply1_def reply2_def reply3_def backupA_def backupB_def
  aliceStore0_def aliceStore1_def aliceStore2_def bobStore1_def bobStore2_def bobStore3_def
  bobStoreMax_def bobStoreMax2_def replyMax_def

lemma alice_run0:
  "createInvitation toy alice Map.empty None None rndA 1 = (Inr invite1, aliceStore0)"
  by (simp add: model_defs storage_defs toy_defs num_defs scen_defs)



lemma alice_run1:
  "appendThread toy alice aliceStore0 reply1 None rndA = Some (Inr (''tx'', ''hi''), aliceStore1)"
  apply (subst appendThread.simps)
  apply (simp add: model_defs storage_defs toy_defs num_defs toDouble_small scen_defs strictEq_def)
  apply (rule ext)
  apply simp
  done

lemma alice_run2:
  "replyToThread toy alice aliceStore1 ''tx'' ''hello'' False ''u'' rndA = Some (Inr reply2, aliceStore2)"
  by (simp add: model_defs storage_defs toy_defs appendThread_known num_defs toDouble_small scen_defs)



lemma bob_run3:
  "replyToThread toy bob bobStore2 ''ty'' ''again'' False ''q'' rndB = Some (Inr reply3, bobStore3)"
  by (simp add: model_defs storage_defs toy_defs appendThread_known num_defs toDouble_small scen_defs)








lemma appendThread_verified:
  assumes "T \<noteq> []" and "s (ThreadInfoK T) = Some (VInfo info)"
    and "jws_payload m = ReplyPayload re mid msg iv epk"
  shows "(\<forall>e. verifySigner E cl info m re = Inl e \<longrightarrow>
            appendThread E cl s m (Some T) rnd = Some (Inl e, s)) \<and>
         (\<forall>r s'. appendThread E cl s m (Some T) rnd = Some (Inr r, s') \<longrightarrow>
            verifySigner E cl info m re = Inr ())"
  using assms
  by (auto simp: appendThread_known appendThreadTail_def Let_def parseJWS_def getItem_def
      split: sum.splits prod.splits option.splits)





lemma appendThread_no_epk:
  assumes "\<not> truthyStr T" and "header_jwk m = Some k"
    and "jws_payload m = ReplyPayload re mid msg iv None"
  shows "appendThread E cl s m T rnd = Some (Inl FirstMessageMustHaveEpk, s)"
  using assms by (subst appendThread.simps) (simp add: parseJWS_def)

section \<open>Self-encryption\<close>



section \<open>Replies\<close>

text \<open>
  C3. A call of \<^verbatim>\<open>replyToThread\<close> on a thread (a non-empty thumbprint) returns, and
  where it returns the JWS, that JWS verifies under the public identity key of the
  client: a reply that does not verify makes the call fail. The check is the one of
  \<^verbatim>\<open>appendThread\<close>, called before the return; the \<^verbatim>\<open>invariant\<close> of line 411 tests a
  promise and never fails.
\<close>

theorem reply_is_self_verified:
  assumes "threadThumbprint \<noteq> []"
  shows "\<exists>r s'. replyToThread E cl s threadThumbprint message selfSign iv rnd = Some (r, s') \<and>
           (\<forall>j. r = Inr j \<longrightarrow> verifyJWS E j (Some (publicKey (identityKeyPair cl))))"
proof -
  obtain r s' where
    rs: "replyToThread E cl s threadThumbprint message selfSign iv rnd = Some (r, s')"
    using replyToThread_total [OF assms] by blast
  have "verifyJWS E j (Some (publicKey (identityKeyPair cl)))" if "r = Inr j" for j
  proof -
    from rs that replyToThread_Inr [of E cl s threadThumbprint message selfSign iv rnd j s'] assms
    obtain secret epk mid info r' where
      j: "j = signJWS E (if selfSign then Some (publicKey (identityKeyPair cl)) else None)
                 (ReplyPayload (getJWKthumbprint E (theirEPK info))
                    (toString16 (plusOne (parseInt16 mid)))
                    (toBase64url E (aesEncrypt E secret iv (textEncode E message)))
                    (toBase64 E iv) (if selfSign then Some epk else None))
                 (privateKey (identityKeyPair cl))"
      and info: "s (ThreadInfoK threadThumbprint) = Some (VInfo info)"
      and tail: "appendThreadTail E cl
             (setItem s (MessageIdK threadThumbprint)
                (VString (toString16 (plusOne (parseInt16 mid))))) j threadThumbprint
             = (Inr r', s')"
      by blast
    from appendThreadTail_Inr [OF tail] info j
    have v: "verifySigner E cl info j (getJWKthumbprint E (theirEPK info)) = Inr ()"
      by (auto simp: setItem_def signJWS_def)
    show ?thesis
      by (rule verifySigner_identity [OF v]) (simp add: j signJWS_def)
  qed
  with rs show ?thesis by blast
qed

theorem reply_is_self_verified_witness:
  "''ty'' \<noteq> [] \<and>
   replyToThread toy bob bobStore2 ''ty'' ''again'' False ''q'' rndB = Some (Inr reply3, bobStore3) \<and>
   verifyJWS toy reply3 (Some (publicKey (identityKeyPair bob)))"
proof -
  have h: "''ty'' \<noteq> []" by simp
  note r = reply_is_self_verified [OF h, of toy bob bobStore2 "''again''" False "''q''" rndB]
  from r bob_run3 have "verifyJWS toy reply3 (Some (publicKey (identityKeyPair bob)))"
    by simp
  with h bob_run3 show ?thesis by blast
qed

section \<open>Message ids\<close>











section \<open>Ingesting a message on a known thread\<close>





text \<open>
  C10. In \<^verbatim>\<open>appendThread\<close> with a known thread, a message whose header embeds a key
  under which its signature does not verify fails with "Unable to determine public
  key" and leaves storage unchanged; and the failure "expected message ... to be
  signed with" occurs only for a message whose header embeds no key.
\<close>

theorem embedded_key_failure:
  assumes "T \<noteq> []" and "s (ThreadInfoK T) = Some (VInfo info)"
    and "jws_payload m = ReplyPayload re mid msg iv epk"
  shows "(\<forall>k. header_jwk m = Some k \<and> \<not> verifyJWS E m (Some k) \<longrightarrow>
            appendThread E cl s m (Some T) rnd = Some (Inl UnableToDeterminePublicKey, s)) \<and>
         (\<forall>s'. appendThread E cl s m (Some T) rnd = Some (Inl ExpectedSignedWith, s') \<longrightarrow>
            header_jwk m = None)"
proof -
  note av = appendThread_verified [where E = E and cl = cl and rnd = rnd and s = s and T = T,
      OF assms]
  have 1: "verifySigner E cl info m re = Inl UnableToDeterminePublicKey"
    if "header_jwk m = Some k" and "\<not> verifyJWS E m (Some k)" for k
    using that
    by (simp add: verifySigner_def selectPubKey_def verifyJWS_def)
  have 2: "header_jwk m = None"
    if "appendThread E cl s m (Some T) rnd = Some (Inl ExpectedSignedWith, s')" for s'
    using that assms
    by (auto simp: appendThread_known appendThreadTail_def Let_def parseJWS_def getItem_def
        verifySigner_def selectPubKey_def readThreadSecret_def decryptFromSelf_def truthy_def
        split: sum.splits prod.splits option.splits if_splits sval.splits payload.splits)
  from av 1 2 show ?thesis by blast
qed

theorem embedded_key_failure_witness:
  "''tx'' \<noteq> [] \<and>
   aliceStore1 (ThreadInfoK ''tx'') =
     Some (VInfo \<lparr>myThumbprint = ''tx'', theirEPK = ''y'', signedInvite = invite1,
                   theirSignature = ''b''\<rparr>) \<and>
   jws_payload forgedReply = ReplyPayload ''tx'' ''2'' ''sszhi'' ''z'' (Some ''y'') \<and>
   header_jwk forgedReply = Some ''b'' \<and> \<not> verifyJWS toy forgedReply (Some ''b'') \<and>
   appendThread toy alice aliceStore1 forgedReply (Some ''tx'') rndA
     = Some (Inl UnableToDeterminePublicKey, aliceStore1)"
proof -
  have h1: "''tx'' \<noteq> []" by simp
  have h2: "aliceStore1 (ThreadInfoK ''tx'') =
     Some (VInfo \<lparr>myThumbprint = ''tx'', theirEPK = ''y'', signedInvite = invite1,
                   theirSignature = ''b''\<rparr>)"
    by (simp add: scen_defs)
  have h3: "jws_payload forgedReply = ReplyPayload ''tx'' ''2'' ''sszhi'' ''z'' (Some ''y'')"
    by (simp add: forgedReply_def)
  have h4: "header_jwk forgedReply = Some ''b'' \<and> \<not> verifyJWS toy forgedReply (Some ''b'')"
    by (simp add: forgedReply_def verifyJWS_def toy_defs)
  note r = embedded_key_failure [where E = toy and cl = alice and rnd = rndA
      and s = aliceStore1 and T = "''tx''", OF h1 h2 h3]
  from r h4 have "appendThread toy alice aliceStore1 forgedReply (Some ''tx'') rndA
     = Some (Inl UnableToDeterminePublicKey, aliceStore1)" by blast
  with h1 h2 h3 h4 show ?thesis by blast
qed

section \<open>The first reply of a thread\<close>







text \<open>
  C9 (as amended). \<^verbatim>\<open>appendThread\<close> without a thread thumbprint: a message with no
  embedded key and no thread-info under \<^verbatim>\<open>payload.re\<close> fails with "Thread not found";
  a message with an embedded key and an \<^verbatim>\<open>epk\<close>, and no invitation under
  \<^verbatim>\<open>payload.re\<close>, fails with "Invitation not found"; storage is unchanged in both
  cases.
\<close>

theorem unknown_thread_or_invitation:
  assumes "\<not> truthyStr T" and "jws_payload m = ReplyPayload re mid msg iv epk"
  shows "(header_jwk m = None \<and> s (ThreadInfoK re) = None \<longrightarrow>
            appendThread E cl s m T rnd = Some (Inl ThreadNotFound, s)) \<and>
         (header_jwk m \<noteq> None \<and> epk \<noteq> None \<and> s (InvitationK re) = None \<longrightarrow>
            appendThread E cl s m T rnd = Some (Inl InvitationNotFound, s))"
proof (intro conjI impI)
  assume "header_jwk m = None \<and> s (ThreadInfoK re) = None"
  with assms show "appendThread E cl s m T rnd = Some (Inl ThreadNotFound, s)"
    by (subst appendThread.simps) (simp add: parseJWS_def storage_defs)
next
  assume "header_jwk m \<noteq> None \<and> epk \<noteq> None \<and> s (InvitationK re) = None"
  with assms show "appendThread E cl s m T rnd = Some (Inl InvitationNotFound, s)"
    by (subst appendThread.simps) (auto simp: parseJWS_def storage_defs Let_def)
qed

theorem unknown_thread_or_invitation_witness:
  "\<not> truthyStr None \<and>
   jws_payload reply2 = ReplyPayload ''ty'' ''3'' ''ssuhello'' ''u'' None \<and>
   jws_payload reply1 = ReplyPayload ''tx'' ''2'' ''sszhi'' ''z'' (Some ''y'') \<and>
   header_jwk reply2 = None \<and> header_jwk reply1 \<noteq> None \<and>
   appendThread toy alice Map.empty reply2 None rndA = Some (Inl ThreadNotFound, Map.empty) \<and>
   appendThread toy alice Map.empty reply1 None rndA = Some (Inl InvitationNotFound, Map.empty)"
proof -
  have h1: "\<not> truthyStr None" by (simp add: truthyStr_def)
  have h2: "jws_payload reply2 = ReplyPayload ''ty'' ''3'' ''ssuhello'' ''u'' None"
    by (simp add: scen_defs)
  have h3: "jws_payload reply1 = ReplyPayload ''tx'' ''2'' ''sszhi'' ''z'' (Some ''y'')"
    by (simp add: scen_defs)
  have h4: "header_jwk reply2 = None" "header_jwk reply1 \<noteq> None"
    by (simp_all add: scen_defs)
  note r2 = unknown_thread_or_invitation [where E = toy and cl = alice and rnd = rndA
      and s = Map.empty, OF h1 h2]
  note r1 = unknown_thread_or_invitation [where E = toy and cl = alice and rnd = rndA
      and s = Map.empty, OF h1 h3]
  from r2 h4 have a: "appendThread toy alice Map.empty reply2 None rndA
      = Some (Inl ThreadNotFound, Map.empty)" by simp
  from r1 h4 have b: "appendThread toy alice Map.empty reply1 None rndA
      = Some (Inl InvitationNotFound, Map.empty)" by simp
  from h1 h2 h3 h4 a b show ?thesis by blast
qed

text \<open>
  The claim C9 as stated fails for a message with an embedded key and no \<^verbatim>\<open>epk\<close>:
  with no invitation stored the call fails with "First message must have an epk", not
  with "Invitation not found".
\<close>

theorem epk_checked_before_invitation_counterexample:
  "header_jwk replyNoEpk = Some ''b'' \<and>
   jws_payload replyNoEpk = ReplyPayload ''tx'' ''2'' ''sszhi'' ''z'' None \<and>
   (Map.empty :: storage) (InvitationK ''tx'') = None \<and>
   appendThread toy alice Map.empty replyNoEpk None rndA
     = Some (Inl FirstMessageMustHaveEpk, Map.empty)"
proof -
  have h1: "\<not> truthyStr None" by (simp add: truthyStr_def)
  have h2: "header_jwk replyNoEpk = Some ''b''" by (simp add: replyNoEpk_def)
  have h3: "jws_payload replyNoEpk = ReplyPayload ''tx'' ''2'' ''sszhi'' ''z'' None"
    by (simp add: replyNoEpk_def)
  from h2 h3 appendThread_no_epk [OF h1 h2 h3] show ?thesis by simp
qed

end
